theory Spec2Isabelle
  imports Complex_Main "HOL-Library.Sublist" "HOL-Library.AList"
begin

section \<open>Python values and exceptions\<close>

text \<open>
  The exceptions the modelled code can raise. \<open>ServiceError\<close> stands for any failure
  reported by an external service (S3, Weights and Biases, SageMaker, TensorFlow).
\<close>

datatype error = IndexError | KeyError | ValueError | OverflowError | TypeError
  | AssertionError | AttributeError | StopIteration | ServiceError

definition and_then :: "error + 'a \<Rightarrow> ('a \<Rightarrow> error + 'b) \<Rightarrow> error + 'b" where
  "and_then m f = (case m of Inl e \<Rightarrow> Inl e | Inr x \<Rightarrow> f x)"

text \<open>
  A Python number as the box, class and confidence lists hold it: a finite value, an
  infinity or NaN. A finite float is represented by the real number it denotes, and a
  Python or NumPy integer \<open>n\<close> by \<open>Finite (of_int n)\<close>.
\<close>

datatype pyfloat = Finite real | PosInf | NegInf | NaN


text \<open>\<open>int(x)\<close>: truncation towards zero; NaN and the infinities raise.\<close>

definition trunc :: "real \<Rightarrow> int" where
  "trunc r = (if 0 \<le> r then \<lfloor>r\<rfloor> else \<lceil>r\<rceil>)"

fun py_int :: "pyfloat \<Rightarrow> error + int" where
  "py_int (Finite r) = Inr (trunc r)"
| "py_int PosInf = Inl OverflowError"
| "py_int NegInf = Inl OverflowError"
| "py_int NaN = Inl ValueError"

text \<open>\<open>round(x)\<close> with one argument: the nearest integer, ties to the even one.\<close>

definition round_half_even :: "real \<Rightarrow> int" where
  "round_half_even r = (let f = \<lfloor>r\<rfloor>; d = r - of_int f in
     if d < 1 / 2 then f else if 1 / 2 < d then f + 1 else if even f then f else f + 1)"

fun py_round :: "pyfloat \<Rightarrow> error + int" where
  "py_round (Finite r) = Inr (round_half_even r)"
| "py_round PosInf = Inl OverflowError"
| "py_round NegInf = Inl OverflowError"
| "py_round NaN = Inl ValueError"

text \<open>
  \<open>100 * x\<close> on floats never raises: a product beyond the range of a double is an
  infinity. A finite product is taken exactly; its rounding to the nearest double is
  not modelled.
\<close>

definition dbl_overflow :: real where
  "dbl_overflow = 2 ^ 1024 - 2 ^ 970"

fun times100 :: "pyfloat \<Rightarrow> pyfloat" where
  "times100 (Finite r) =
     (if dbl_overflow \<le> 100 * r then PosInf
      else if 100 * r \<le> - dbl_overflow then NegInf
      else Finite (100 * r))"
| "times100 PosInf = PosInf"
| "times100 NegInf = NegInf"
| "times100 NaN = NaN"

text \<open>\<open>xs[i]\<close> for an index that is never negative, and \<open>d[k]\<close> on a dictionary.\<close>

definition getitem :: "'a list \<Rightarrow> nat \<Rightarrow> error + 'a" where
  "getitem xs i = (if i < length xs then Inr (xs ! i) else Inl IndexError)"

definition dict_getitem :: "('k \<rightharpoonup> 'v) \<Rightarrow> 'k \<Rightarrow> error + 'v" where
  "dict_getitem d k = (case d k of None \<Rightarrow> Inl KeyError | Some v \<Rightarrow> Inr v)"

text \<open>The truth value of an optional list: \<open>None\<close> and \<open>[]\<close> are false.\<close>

fun truthy :: "'a list option \<Rightarrow> bool" where
  "truthy None = False"
| "truthy (Some xs) = (xs \<noteq> [])"

fun list_of :: "'a list option \<Rightarrow> 'a list" where
  "list_of None = []"
| "list_of (Some xs) = xs"

text \<open>\<open>str(n)\<close> of an integer, as an f-string formats it.\<close>

definition digit_char :: "nat \<Rightarrow> char" where
  "digit_char d = ''0123456789'' ! d"

function show_nat :: "nat \<Rightarrow> string" where
  "show_nat n = (if n < 10 then [digit_char n] else show_nat (n div 10) @ [digit_char (n mod 10)])"
  by pat_completeness auto
termination
  by (relation "measure id") auto

declare show_nat.simps [simp del]

definition show_int :: "int \<Rightarrow> string" where
  "show_int i = (if i < 0 then CHR ''-'' # show_nat (nat (- i)) else show_nat (nat i))"

section \<open>utils.py\<close>

definition class_mapping_items :: "(int \<times> string) list" where
  "class_mapping_items =
    [(1, ''Apple Scab Leaf''),
     (2, ''Apple leaf''),
     (3, ''Apple rust leaf''),
     (4, ''Bell_pepper leaf''),
     (5, ''Bell_pepper leaf spot''),
     (6, ''Blueberry leaf''),
     (7, ''Cherry leaf''),
     (8, ''Corn Gray leaf spot''),
     (9, ''Corn leaf blight''),
     (10, ''Corn rust leaf''),
     (11, ''Peach leaf''),
     (12, ''Potato leaf''),
     (13, ''Potato leaf early blight''),
     (14, ''Potato leaf late blight''),
     (15, ''Raspberry leaf''),
     (16, ''Soyabean leaf''),
     (17, ''Soybean leaf''),
     (18, ''Squash Powdery mildew leaf''),
     (19, ''Strawberry leaf''),
     (20, ''Tomato Early blight leaf''),
     (21, ''Tomato Septoria leaf spot''),
     (22, ''Tomato leaf''),
     (23, ''Tomato leaf bacterial spot''),
     (24, ''Tomato leaf late blight''),
     (25, ''Tomato leaf mosaic virus''),
     (26, ''Tomato leaf yellow virus''),
     (27, ''Tomato mold leaf''),
     (28, ''Tomato two spotted spider mites leaf''),
     (29, ''grape leaf''),
     (30, ''grape leaf black rot'')]"

definition class_mapping :: "int \<rightharpoonup> string" where
  "class_mapping = map_of class_mapping_items"

subsection \<open>convert_format_keras_to_wandb\<close>

record wandb_position =
  minX :: int
  maxX :: int
  minY :: int
  maxY :: int

record wandb_box =
  position :: wandb_position
  class_id :: int
  box_caption :: string
  domain :: string

text \<open>
  The body of the loop for the box at index \<open>b_i\<close>. Every subscript and conversion is
  evaluated in the order of the source, and the first one that raises ends the call.
\<close>

definition box_entry ::
  "pyfloat list \<Rightarrow> pyfloat list option \<Rightarrow> nat \<Rightarrow> pyfloat list \<Rightarrow> error + wandb_box" where
  "box_entry classes_list confidence_list b_i box =
     and_then (and_then (getitem box 0) py_int) (\<lambda>x0.
     and_then (and_then (getitem box 2) py_int) (\<lambda>x1.
     and_then (and_then (getitem box 1) py_int) (\<lambda>y0.
     and_then (and_then (getitem box 3) py_int) (\<lambda>y1.
     and_then (and_then (getitem classes_list b_i) py_int) (\<lambda>cid.
       if truthy confidence_list then
         and_then (and_then (getitem (list_of confidence_list) b_i)
                     (\<lambda>c. py_round (times100 c))) (\<lambda>confidence.
         and_then (dict_getitem class_mapping cid) (\<lambda>name.
           Inr \<lparr>position = \<lparr>minX = x0, maxX = x1, minY = y0, maxY = y1\<rparr>,
                class_id = cid,
                box_caption = name @ '' ('' @ show_int confidence @ ''%)'',
                domain = ''pixel''\<rparr>))
       else
         and_then (dict_getitem class_mapping cid) (\<lambda>name.
           Inr \<lparr>position = \<lparr>minX = x0, maxX = x1, minY = y0, maxY = y1\<rparr>,
                class_id = cid,
                box_caption = name,
                domain = ''pixel''\<rparr>))))))"

text \<open>
  The loop \<open>for b_i, box in enumerate(box_list)\<close>, with the boxes still to visit and the
  list \<open>all_boxes\<close> built so far.
\<close>

fun convert_loop ::
  "pyfloat list \<Rightarrow> pyfloat list option \<Rightarrow> nat \<Rightarrow> pyfloat list list \<Rightarrow> wandb_box list
     \<Rightarrow> error + wandb_box list" where
  "convert_loop classes_list confidence_list b_i [] all_boxes = Inr all_boxes"
| "convert_loop classes_list confidence_list b_i (box # rest) all_boxes =
     and_then (box_entry classes_list confidence_list b_i box) (\<lambda>box_data.
       convert_loop classes_list confidence_list (Suc b_i) rest (all_boxes @ [box_data]))"

definition convert_format_keras_to_wandb ::
  "pyfloat list list \<Rightarrow> pyfloat list \<Rightarrow> pyfloat list option \<Rightarrow> error + wandb_box list" where
  "convert_format_keras_to_wandb box_list classes_list confidence_list =
     convert_loop classes_list confidence_list 0 box_list []"





section \<open>main_flow.py\<close>

subsection \<open>Values, artifacts and the outside world\<close>

text \<open>
  A Python value as an attribute of the flow object holds it. Tensors, ragged tensors and
  NumPy arrays are represented by the nested lists of their entries.
\<close>

datatype pyval = PNone | PBool bool | PInt int | PFloat pyfloat | PStr string
  | PList "pyval list" | PDict "(string \<times> pyval) list"

definition floats_val :: "pyfloat list \<Rightarrow> pyval" where
  "floats_val xs = PList (map PFloat xs)"

definition boxes_val :: "pyfloat list list \<Rightarrow> pyval" where
  "boxes_val bs = PList (map floats_val bs)"

text \<open>\<open>d[k]\<close> and \<open>d[k] = v\<close> on a value that should be a dictionary.\<close>

fun subscript :: "pyval \<Rightarrow> string \<Rightarrow> error + pyval" where
  "subscript (PDict kvs) k = dict_getitem (map_of kvs) k"
| "subscript v k = Inl TypeError"

fun setitem :: "pyval \<Rightarrow> string \<Rightarrow> pyval \<Rightarrow> error + pyval" where
  "setitem (PDict kvs) k v = Inr (PDict (AList.update k v kvs))"
| "setitem d k v = Inl TypeError"

text \<open>
  The artifacts of a run: the attributes set on \<open>self\<close>, by name. Metaflow persists them
  at the end of a step and loads them into the next one. Reading an attribute that was
  never set raises.
\<close>

type_synonym attrs = "string \<rightharpoonup> pyval"

definition getattr :: "attrs \<Rightarrow> string \<Rightarrow> error + pyval" where
  "getattr self a = (case self a of None \<Rightarrow> Inl AttributeError | Some v \<Rightarrow> Inr v)"

text \<open>
  What the hosting service holds: the live endpoints by name, and a log of the calls
  that reached the services, oldest first.
\<close>

record endpoint =
  model_data :: pyval
  role :: string
  instance_type :: string
  initial_instance_count :: nat

datatype event =
    Downloaded string string
  | Uploaded string string
  | Weights_set pyval
  | Table_logged "(wandb_box list \<times> wandb_box list option) list"
  | Endpoint_created string endpoint
  | Endpoint_invoked string pyval
  | Endpoint_deleted string

record world =
  endpoints :: "string \<rightharpoonup> endpoint"
  events :: "event list"

type_synonym run_state = "attrs \<times> world"

definition log_event :: "event \<Rightarrow> world \<Rightarrow> world" where
  "log_event ev w = w\<lparr>events := events w @ [ev]\<rparr>"

text \<open>
  SageMaker as the deploy step uses it: creating an endpoint under a name that is live
  fails, and so does deleting one that is not.
\<close>

definition create_endpoint :: "string \<Rightarrow> endpoint \<Rightarrow> world \<Rightarrow> error + world" where
  "create_endpoint name ep w =
     (if endpoints w name \<noteq> None then Inl ServiceError
      else Inr (log_event (Endpoint_created name ep) (w\<lparr>endpoints := (endpoints w)(name \<mapsto> ep)\<rparr>)))"

definition delete_endpoint :: "string \<Rightarrow> world \<Rightarrow> error + world" where
  "delete_endpoint name w =
     (if endpoints w name = None then Inl ServiceError
      else Inr (log_event (Endpoint_deleted name) (w\<lparr>endpoints := (endpoints w)(name := None)\<rparr>)))"

text \<open>
  One parsed validation example (the result of \<open>parse_tfrecord_fn\<close>) with the trained
  model's answer on it, and the hosted endpoint's answer on the test image.
\<close>

record example =
  images :: pyval
  gt_boxes :: "pyfloat list list"
  gt_classes :: "pyfloat list"
  pred_confidence :: "pyfloat list"
  pred_ragged :: pyval
  pred_boxes :: "pyfloat list list list"
  pred_classes :: "pyfloat list list"

record reply =
  prediction :: pyval
  boxes_tensor :: pyval
  classes_tensor :: pyval
  ragged :: pyval
  ragged_boxes :: "pyval list"
  ragged_classes :: "pyval list"

text \<open>
  The inputs of one run: the flow's parameters, the environment variables, the clock, and
  what the services and the ML libraries answer. An answer of \<open>Inl e\<close> is a call that
  raises \<open>e\<close>.
\<close>

record outside =
  TESTING :: bool
  SAGEMAKER_INSTANCE :: string
  environ :: "string \<rightharpoonup> string"
  clock_ms :: int
  s3_get :: "string \<Rightarrow> error + unit"
  wandb_init :: "error + string"
  fit :: "pyval \<Rightarrow> error + (string \<times> pyval)"
  s3_put :: "string \<Rightarrow> error + string"
  wandb_resume :: "pyval \<Rightarrow> error + unit"
  val_examples :: "pyval \<Rightarrow> error + example list"
  wandb_log :: "error + unit"
  first_train_image :: "pyval \<Rightarrow> pyval option"
  endpoint_predict :: "pyval \<Rightarrow> error + reply"

subsection \<open>The steps\<close>

datatype stage = Step_start | Step_augment_data_train_model | Step_evaluate_model
  | Step_deploy | Step_end

text \<open>\<open>assert os.environ[name]\<close>: a missing variable and an empty one both raise.\<close>

definition assert_environ :: "outside \<Rightarrow> string \<Rightarrow> error + unit" where
  "assert_environ out name =
     and_then (dict_getitem (environ out) name) (\<lambda>v. if v = [] then Inl AssertionError else Inr ())"

definition start :: "outside \<Rightarrow> run_state \<Rightarrow> error + run_state" where
  "start out rs =
     and_then (assert_environ out ''WANDB_API_KEY'') (\<lambda>_.
     and_then (assert_environ out ''WANDB_ENTITY'') (\<lambda>_.
     and_then (assert_environ out ''WANDB_PROJECT'') (\<lambda>_.
     and_then (assert_environ out ''S3_BUCKET_ADDRESS'') (\<lambda>_.
     and_then (assert_environ out ''KAGGLE_USERNAME'') (\<lambda>_.
     and_then (assert_environ out ''KAGGLE_KEY'') (\<lambda>_.
     and_then (assert_environ out ''IAM_ROLE_SAGEMAKER'') (\<lambda>_.
       Inr rs)))))))"

definition initial_config :: pyval where
  "initial_config = PDict
     [(''base_lr'', PFloat (Finite (1 / 10000))),
      (''loss'', PStr ''sparse_categorical_crossentropy''),
      (''epoch'', PInt 40),
      (''batch_size'', PInt 32),
      (''classification_loss'', PStr ''focal''),
      (''box_loss'', PStr ''smoothl1''),
      (''num_examples'', PInt 6),
      (''bbox_format'', PStr ''xyxy''),
      (''img_size'', PInt 416),
      (''patience'', PInt 6),
      (''iou_threshold'', PFloat (Finite (1 / 5))),
      (''confidence_threshold'', PFloat (Finite (3 / 5)))]"

text \<open>\<open>f"model-{config.base_lr}.tar.gz"\<close> with the learning rate of \<open>initial_config\<close>.\<close>

definition local_tar_name :: string where
  "local_tar_name = ''model-0.0001.tar.gz''"

definition download_from_s3 :: "outside \<Rightarrow> string \<Rightarrow> string \<Rightarrow> world \<Rightarrow> error + world" where
  "download_from_s3 out s3_path local_path w =
     and_then (s3_get out s3_path) (\<lambda>_. Inr (log_event (Downloaded s3_path local_path) w))"

definition augment_data_train_model :: "outside \<Rightarrow> run_state \<Rightarrow> error + run_state" where
  "augment_data_train_model out rs = (case rs of (self0, w0) \<Rightarrow>
     let self1 = self0(''config'' \<mapsto> initial_config) in
     (case environ out ''S3_BUCKET_ADDRESS'' of
        None \<Rightarrow> Inl TypeError
      | Some bucket \<Rightarrow>
     let s3_base_path = ''s3://'' @ bucket @ ''/raw_data/'';
         self2 = self1(''train_tfrecord_file'' \<mapsto> PStr ''train_leaves.tfrecord'');
         self3 = self2(''val_tfrecord_file'' \<mapsto> PStr ''val_test_leaves.tfrecord'') in
     and_then (download_from_s3 out (s3_base_path @ ''leaves.tfrecord'')
                 ''train_leaves.tfrecord'' w0) (\<lambda>w1.
     and_then (download_from_s3 out (s3_base_path @ ''test_leaves.tfrecord'')
                 ''val_test_leaves.tfrecord'' w1) (\<lambda>w2.
     and_then (if TESTING out
               then and_then (getattr self3 ''config'') (\<lambda>c.
                    and_then (setitem c ''epoch'' (PInt 2)) (\<lambda>c'.
                      Inr (self3(''config'' \<mapsto> c'))))
               else Inr self3) (\<lambda>self4.
     and_then (getattr self4 ''config'') (\<lambda>config.
     and_then (wandb_init out) (\<lambda>run.
     let self5 = self4(''run_id'' \<mapsto> PStr run) in
     and_then (fit out config) (\<lambda>(json, weights).
     let self6 = self5(''model'' \<mapsto> PDict [(''model'', PStr json), (''model_weights'', weights)]) in
     and_then (s3_put out local_tar_name) (\<lambda>url.
     let w3 = log_event (Uploaded local_tar_name url) w2;
         self7 = self6(''s3_path'' \<mapsto> PStr url) in
       Inr (self7, w3))))))))))"

text \<open>
  The body of the loop of \<open>evaluate_model\<close> over the validation examples: the artifacts
  and the rows of the table so far, and what they are after one more example.
\<close>

definition evaluate_example ::
  "example \<Rightarrow> attrs \<times> (wandb_box list \<times> wandb_box list option) list
     \<Rightarrow> error + (attrs \<times> (wandb_box list \<times> wandb_box list option) list)" where
  "evaluate_example ex acc = (case acc of (self0, table) \<Rightarrow>
     and_then (convert_format_keras_to_wandb (gt_boxes ex) (gt_classes ex) None) (\<lambda>all_boxes.
     let self1 = self0(''image'' \<mapsto> PList [images ex]);
         confidence = filter (\<lambda>conf. conf \<noteq> Finite (- 1)) (pred_confidence ex);
         self2 = self1(''confidence'' \<mapsto> floats_val confidence);
         self3 = self2(''y_pred'' \<mapsto> pred_ragged ex);
         self4 = self3(''boxes'' \<mapsto> PList (map boxes_val (pred_boxes ex)));
         self5 = self4(''classes'' \<mapsto> PList (map floats_val (pred_classes ex)));
         self6 = self5(''box_list'' \<mapsto> PList (map boxes_val (pred_boxes ex)));
         self7 = self6(''classes_list'' \<mapsto> PList (map floats_val (pred_classes ex))) in
     and_then (getitem (pred_boxes ex) 0) (\<lambda>box_list.
     let self8 = self7(''box_list'' \<mapsto> boxes_val box_list) in
     and_then (getitem (pred_classes ex) 0) (\<lambda>classes_list.
     let self9 = self8(''classes_list'' \<mapsto> floats_val classes_list) in
       if box_list = [] then Inr (self9, table @ [(all_boxes, None)])
       else
         and_then (convert_format_keras_to_wandb box_list classes_list (Some confidence))
           (\<lambda>predicted. Inr (self9, table @ [(all_boxes, Some predicted)]))))))"

fun evaluate_examples ::
  "example list \<Rightarrow> attrs \<times> (wandb_box list \<times> wandb_box list option) list
     \<Rightarrow> error + (attrs \<times> (wandb_box list \<times> wandb_box list option) list)" where
  "evaluate_examples [] acc = Inr acc"
| "evaluate_examples (ex # rest) acc =
     and_then (evaluate_example ex acc) (evaluate_examples rest)"

text \<open>\<open>dataset.take(n)\<close> for the value of \<open>config.num_examples\<close>.\<close>

fun take_count :: "pyval \<Rightarrow> error + nat" where
  "take_count (PInt n) = Inr (nat n)"
| "take_count v = Inl TypeError"

definition evaluate_model :: "outside \<Rightarrow> run_state \<Rightarrow> error + run_state" where
  "evaluate_model out rs = (case rs of (self0, w0) \<Rightarrow>
     and_then (getattr self0 ''config'') (\<lambda>config.
     and_then (getattr self0 ''run_id'') (\<lambda>run_id.
     and_then (wandb_resume out run_id) (\<lambda>_.
     and_then (getattr self0 ''val_tfrecord_file'') (\<lambda>val_file.
     and_then (getattr self0 ''model'') (\<lambda>model.
     and_then (subscript model ''model_weights'') (\<lambda>weights.
     let w1 = log_event (Weights_set weights) w0 in
     and_then (subscript config ''bbox_format'') (\<lambda>_.
     and_then (subscript config ''iou_threshold'') (\<lambda>_.
     and_then (subscript config ''confidence_threshold'') (\<lambda>_.
     and_then (and_then (subscript config ''num_examples'') take_count) (\<lambda>num_examples.
     and_then (val_examples out val_file) (\<lambda>examples.
     and_then (evaluate_examples (take num_examples examples) (self0, [])) (\<lambda>(self1, table).
     and_then (wandb_log out) (\<lambda>_.
       Inr (self1, log_event (Table_logged table) w1)))))))))))))))"

text \<open>\<open>f'detection-{int(round(time.time() * 1000))}-endpoint'\<close>\<close>

definition endpoint_name :: "outside \<Rightarrow> string" where
  "endpoint_name out = ''detection-'' @ show_int (clock_ms out) @ ''-endpoint''"

definition deploy :: "outside \<Rightarrow> run_state \<Rightarrow> error + run_state" where
  "deploy out rs = (case rs of (self0, w0) \<Rightarrow>
     and_then (getattr self0 ''s3_path'') (\<lambda>s3_path.
     and_then (dict_getitem (environ out) ''IAM_ROLE_SAGEMAKER'') (\<lambda>iam_role.
     and_then (create_endpoint (endpoint_name out)
                 \<lparr>model_data = s3_path, role = iam_role,
                  instance_type = SAGEMAKER_INSTANCE out, initial_instance_count = 1\<rparr> w0) (\<lambda>w1.
     and_then (getattr self0 ''train_tfrecord_file'') (\<lambda>train_file.
     and_then (getattr self0 ''config'') (\<lambda>config.
     and_then (subscript config ''img_size'') (\<lambda>_.
     and_then (subscript config ''bbox_format'') (\<lambda>_.
     and_then (case first_train_image out train_file of
                 None \<Rightarrow> Inl StopIteration | Some img \<Rightarrow> Inr (PList [img])) (\<lambda>instances.
     and_then (endpoint_predict out instances) (\<lambda>answer.
     let w2 = log_event (Endpoint_invoked (endpoint_name out) instances) w1;
         self1 = self0(''result'' \<mapsto> prediction answer) in
     and_then (subscript (prediction answer) ''boxes'') (\<lambda>boxes.
     and_then (subscript (prediction answer) ''classes'') (\<lambda>classes.
     let self2 = self1(''boxes'' \<mapsto> boxes, ''classes'' \<mapsto> classes);
         self3 = self2(''boxes_tensor'' \<mapsto> boxes_tensor answer,
                       ''classes_tensor'' \<mapsto> classes_tensor answer);
         self4 = self3(''tensor_dict'' \<mapsto>
                   PDict [(''boxes'', boxes_tensor answer), (''classes'', classes_tensor answer)]);
         self5 = self4(''y_pred'' \<mapsto> ragged answer) in
     and_then (subscript (ragged answer) ''boxes'') (\<lambda>rboxes.
     and_then (subscript (ragged answer) ''classes'') (\<lambda>rclasses.
     let self6 = self5(''boxes'' \<mapsto> rboxes, ''classes'' \<mapsto> rclasses);
         self7 = self6(''box_list'' \<mapsto> PList (ragged_boxes answer),
                       ''classes_list'' \<mapsto> PList (ragged_classes answer)) in
     and_then (if ragged_boxes answer = [] then Inr self7
               else and_then (getitem (ragged_boxes answer) 0) (\<lambda>box0.
                    and_then (getitem (ragged_classes answer) 0) (\<lambda>class0.
                      Inr (self7(''box_list'' \<mapsto> box0, ''classes_list'' \<mapsto> class0))))) (\<lambda>self8.
     and_then (delete_endpoint (endpoint_name out) w2) (\<lambda>w3.
       Inr (self8, w3)))))))))))))))))"

definition end_step :: "outside \<Rightarrow> run_state \<Rightarrow> error + run_state" where
  "end_step out rs = Inr rs"

subsection \<open>The order of the steps\<close>

text \<open>The statements of each step, and the \<open>self.next\<close> call that ends it.\<close>

fun step_body :: "stage \<Rightarrow> outside \<Rightarrow> run_state \<Rightarrow> error + run_state" where
  "step_body Step_start = start"
| "step_body Step_augment_data_train_model = augment_data_train_model"
| "step_body Step_evaluate_model = evaluate_model"
| "step_body Step_deploy = deploy"
| "step_body Step_end = end_step"

fun next_step :: "stage \<Rightarrow> stage option" where
  "next_step Step_start = Some Step_augment_data_train_model"
| "next_step Step_augment_data_train_model = Some Step_evaluate_model"
| "next_step Step_evaluate_model = Some Step_deploy"
| "next_step Step_deploy = Some Step_end"
| "next_step Step_end = None"

fun steps_left :: "stage \<Rightarrow> nat" where
  "steps_left Step_start = 4"
| "steps_left Step_augment_data_train_model = 3"
| "steps_left Step_evaluate_model = 2"
| "steps_left Step_deploy = 1"
| "steps_left Step_end = 0"

text \<open>
  A run from a step on: the steps that ran, in order, and how the run ended. A step that
  raises ends the run; a step that returns hands its artifacts to the step it named.
\<close>

function run_from :: "outside \<Rightarrow> stage \<Rightarrow> run_state \<Rightarrow> stage list \<times> (error + run_state)" where
  "run_from out st rs =
     (case step_body st out rs of
        Inl e \<Rightarrow> ([st], Inl e)
      | Inr rs' \<Rightarrow>
          (case next_step st of
             None \<Rightarrow> ([st], Inr rs')
           | Some nxt \<Rightarrow> (case run_from out nxt rs' of (later, outcome) \<Rightarrow> (st # later, outcome))))"
  by pat_completeness auto
termination
  by (relation "measure (\<lambda>(out, st, rs). steps_left st)") (auto elim: next_step.elims)

declare run_from.simps [simp del]

definition main_flow :: "outside \<Rightarrow> world \<Rightarrow> stage list \<times> (error + run_state)" where
  "main_flow out w = run_from out Step_start (Map.empty, w)"

section \<open>Properties of convert_format_keras_to_wandb\<close>

lemma and_then_Inr: "and_then m f = Inr y \<longleftrightarrow> (\<exists>x. m = Inr x \<and> f x = Inr y)"
  by (cases m) (simp_all add: and_then_def)

lemma and_then_simps [simp]: "and_then (Inl e) f = Inl e" "and_then (Inr x) f = f x"
  by (simp_all add: and_then_def)

lemma getitem_Inr: "getitem xs i = Inr x \<longleftrightarrow> i < length xs \<and> xs ! i = x"
  by (simp add: getitem_def)

lemma dict_getitem_Inr: "dict_getitem d k = Inr v \<longleftrightarrow> d k = Some v"
  by (simp add: dict_getitem_def split: option.splits)

lemma box_entry_position:
  assumes "box_entry cl conf i box = Inr bd"
  shows "4 \<le> length box \<and> py_int (box ! 0) = Inr (minX (position bd))
       \<and> py_int (box ! 1) = Inr (minY (position bd))
       \<and> py_int (box ! 2) = Inr (maxX (position bd))
       \<and> py_int (box ! 3) = Inr (maxY (position bd))"
  using assms unfolding box_entry_def
  by (auto simp: and_then_Inr getitem_Inr dict_getitem_Inr split: if_splits)

lemma box_entry_class:
  assumes "box_entry cl conf i box = Inr bd"
  shows "i < length cl \<and> py_int (cl ! i) = Inr (class_id bd) \<and> domain bd = ''pixel''"
  using assms unfolding box_entry_def
  by (auto simp: and_then_Inr getitem_Inr dict_getitem_Inr split: if_splits)

lemma box_entry_caption_plain:
  assumes "box_entry cl conf i box = Inr bd" and "\<not> truthy conf"
  shows "class_mapping (class_id bd) = Some (box_caption bd)"
  using assms unfolding box_entry_def
  by (auto simp: and_then_Inr getitem_Inr dict_getitem_Inr)

lemma box_entry_caption_percent:
  assumes "box_entry cl conf i box = Inr bd" and "truthy conf"
  shows "\<exists>name p. class_mapping (class_id bd) = Some name
           \<and> i < length (list_of conf)
           \<and> py_round (times100 (list_of conf ! i)) = Inr p
           \<and> box_caption bd = name @ '' ('' @ show_int p @ ''%)''"
  using assms unfolding box_entry_def
  by (auto simp: and_then_Inr getitem_Inr dict_getitem_Inr)


lemma convert_loop_Inr:
  "convert_loop cl conf k bl acc = Inr out \<Longrightarrow>
     \<exists>new. out = acc @ new \<and> length new = length bl
       \<and> (\<forall>i<length bl. box_entry cl conf (k + i) (bl ! i) = Inr (new ! i))"
proof (induction bl arbitrary: k acc out)
  case Nil
  then show ?case by simp
next
  case (Cons box rest)
  from Cons.prems obtain bd where
    bd: "box_entry cl conf k box = Inr bd" and
    rec: "convert_loop cl conf (Suc k) rest (acc @ [bd]) = Inr out"
    by (auto simp: and_then_Inr)
  from Cons.IH [OF rec] obtain new where
    new: "out = (acc @ [bd]) @ new" "length new = length rest"
      "\<forall>i<length rest. box_entry cl conf (Suc k + i) (rest ! i) = Inr (new ! i)"
    by blast
  have "\<forall>i<length (box # rest). box_entry cl conf (k + i) ((box # rest) ! i) = Inr ((bd # new) ! i)"
  proof (intro allI impI)
    fix i assume "i < length (box # rest)"
    then show "box_entry cl conf (k + i) ((box # rest) ! i) = Inr ((bd # new) ! i)"
      using bd new(3) by (cases i) auto
  qed
  with new(1,2) show ?case
    by (intro exI [of _ "bd # new"]) simp
qed

lemma convert_entries:
  assumes "convert_format_keras_to_wandb bl cl conf = Inr out"
  shows "length out = length bl \<and> (\<forall>i<length bl. box_entry cl conf i (bl ! i) = Inr (out ! i))"
  using convert_loop_Inr [of cl conf 0 bl "[]" out] assms
  by (auto simp: convert_format_keras_to_wandb_def)






section \<open>Claims on convert_format_keras_to_wandb\<close>



text \<open>
  Claim C2. Whenever the conversion returns, the entry at index \<open>i\<close> holds the
  truncated coordinates of the box at index \<open>i\<close>: \<open>minX = int(box[0])\<close>,
  \<open>minY = int(box[1])\<close>, \<open>maxX = int(box[2])\<close> and \<open>maxY = int(box[3])\<close>, with minimum
  and maximum not swapped.
\<close>

theorem convert_positions:
  assumes "convert_format_keras_to_wandb bl cl conf = Inr out" and "i < length bl"
  shows "i < length out \<and> 4 \<le> length (bl ! i)
     \<and> py_int (bl ! i ! 0) = Inr (minX (position (out ! i)))
     \<and> py_int (bl ! i ! 1) = Inr (minY (position (out ! i)))
     \<and> py_int (bl ! i ! 2) = Inr (maxX (position (out ! i)))
     \<and> py_int (bl ! i ! 3) = Inr (maxY (position (out ! i)))"
proof -
  from convert_entries [OF assms(1)] assms(2)
  have len: "length out = length bl" and ent: "box_entry cl conf i (bl ! i) = Inr (out ! i)"
    by simp_all
  from box_entry_position [OF ent] len assms(2) show ?thesis by simp
qed

theorem convert_positions_witness:
  "convert_format_keras_to_wandb
      [[Finite (21 / 2), Finite 20, Finite (603 / 2), Finite 415],
       [Finite (- 5 / 2), Finite 0, Finite (7 / 4), Finite 3]]
      [Finite 3, Finite 30] None
    = Inr [\<lparr>position = \<lparr>minX = 10, maxX = 301, minY = 20, maxY = 415\<rparr>, class_id = 3,
            box_caption = ''Apple rust leaf'', domain = ''pixel''\<rparr>,
           \<lparr>position = \<lparr>minX = - 2, maxX = 1, minY = 0, maxY = 3\<rparr>, class_id = 30,
            box_caption = ''grape leaf black rot'', domain = ''pixel''\<rparr>]
   \<and> py_int (Finite (- 5 / 2)) = Inr (- 2) \<and> py_int (Finite 0) = Inr 0
   \<and> py_int (Finite (7 / 4)) = Inr 1 \<and> py_int (Finite 3) = Inr 3"
proof -
  have run: "convert_format_keras_to_wandb
      [[Finite (21 / 2), Finite 20, Finite (603 / 2), Finite 415],
       [Finite (- 5 / 2), Finite 0, Finite (7 / 4), Finite 3]]
      [Finite 3, Finite 30] None
    = Inr [\<lparr>position = \<lparr>minX = 10, maxX = 301, minY = 20, maxY = 415\<rparr>, class_id = 3,
            box_caption = ''Apple rust leaf'', domain = ''pixel''\<rparr>,
           \<lparr>position = \<lparr>minX = - 2, maxX = 1, minY = 0, maxY = 3\<rparr>, class_id = 30,
            box_caption = ''grape leaf black rot'', domain = ''pixel''\<rparr>]"
    by (simp add: convert_format_keras_to_wandb_def box_entry_def getitem_def dict_getitem_def
        class_mapping_def class_mapping_items_def trunc_def)
  from convert_positions [OF run, of 1] run show ?thesis by simp
qed

text \<open>
  Claim C8. The returned list has one entry per box, in the order of the boxes: the
  entry at index \<open>i\<close> is the loop body's result for \<open>box_list[i]\<close> and
  \<open>classes_list[i]\<close>, its \<open>class_id\<close> is \<open>int(classes_list[i])\<close>, its domain is
  \<open>pixel\<close>, and its caption starts from the class's name in \<open>class_mapping\<close>.
\<close>

theorem convert_count_and_order:
  assumes "convert_format_keras_to_wandb bl cl conf = Inr out"
  shows "length out = length bl \<and>
     (\<forall>i<length bl. i < length cl
        \<and> box_entry cl conf i (bl ! i) = Inr (out ! i)
        \<and> py_int (cl ! i) = Inr (class_id (out ! i))
        \<and> domain (out ! i) = ''pixel''
        \<and> (\<exists>name. class_mapping (class_id (out ! i)) = Some name
              \<and> (box_caption (out ! i) = name
                  \<or> (\<exists>p. box_caption (out ! i) = name @ '' ('' @ show_int p @ ''%)''))))"
proof (intro conjI allI impI)
  show "length out = length bl"
    using convert_entries [OF assms] by simp
next
  fix i assume i: "i < length bl"
  with convert_entries [OF assms]
  have ent: "box_entry cl conf i (bl ! i) = Inr (out ! i)" by simp
  show "box_entry cl conf i (bl ! i) = Inr (out ! i)" by (rule ent)
  show "i < length cl" "py_int (cl ! i) = Inr (class_id (out ! i))" "domain (out ! i) = ''pixel''"
    using box_entry_class [OF ent] by simp_all
  show "\<exists>name. class_mapping (class_id (out ! i)) = Some name
          \<and> (box_caption (out ! i) = name
              \<or> (\<exists>p. box_caption (out ! i) = name @ '' ('' @ show_int p @ ''%)''))"
  proof (cases "truthy conf")
    case True
    from box_entry_caption_percent [OF ent True] show ?thesis by blast
  next
    case False
    from box_entry_caption_plain [OF ent False] show ?thesis by blast
  qed
qed

theorem convert_count_and_order_witness:
  "convert_format_keras_to_wandb
      [[Finite 1, Finite 2, Finite 3, Finite 4], [Finite 5, Finite 6, Finite 7, Finite 8]]
      [Finite 22, Finite 1] (Some [Finite (87 / 100), Finite (1 / 8)])
    = Inr [\<lparr>position = \<lparr>minX = 1, maxX = 3, minY = 2, maxY = 4\<rparr>, class_id = 22,
            box_caption = ''Tomato leaf (87%)'', domain = ''pixel''\<rparr>,
           \<lparr>position = \<lparr>minX = 5, maxX = 7, minY = 6, maxY = 8\<rparr>, class_id = 1,
            box_caption = ''Apple Scab Leaf (12%)'', domain = ''pixel''\<rparr>]
   \<and> length [[Finite 1, Finite 2, Finite 3, Finite 4], [Finite 5, Finite 6, Finite 7, Finite 8]]
       = (2::nat)
   \<and> py_int (Finite 1) = Inr 1"
proof -
  have run: "convert_format_keras_to_wandb
      [[Finite 1, Finite 2, Finite 3, Finite 4], [Finite 5, Finite 6, Finite 7, Finite 8]]
      [Finite 22, Finite 1] (Some [Finite (87 / 100), Finite (1 / 8)])
    = Inr [\<lparr>position = \<lparr>minX = 1, maxX = 3, minY = 2, maxY = 4\<rparr>, class_id = 22,
            box_caption = ''Tomato leaf (87%)'', domain = ''pixel''\<rparr>,
           \<lparr>position = \<lparr>minX = 5, maxX = 7, minY = 6, maxY = 8\<rparr>, class_id = 1,
            box_caption = ''Apple Scab Leaf (12%)'', domain = ''pixel''\<rparr>]"
    by (simp add: convert_format_keras_to_wandb_def box_entry_def getitem_def dict_getitem_def
        class_mapping_def class_mapping_items_def trunc_def round_half_even_def Let_def
        dbl_overflow_def show_int_def show_nat.simps digit_char_def)
  from convert_count_and_order [OF run] run show ?thesis by (simp add: trunc_def)
qed






end
